theory Spec2Isabelle
  imports Main
begin

section \<open>Data model\<close>

text \<open>
  The development embeds \<^verbatim>\<open>nb_conda_store_kernels/manager.py\<close> and
  \<^verbatim>\<open>nb_conda_store_kernels/utils.py\<close>. Python exceptions are values of the type
  \<open>error\<close>; a computation that may raise returns \<open>error + 'a\<close> with \<open>Inl\<close> for the
  exception. \<open>OSError\<close> stands for the class with all its subclasses, which is what
  \<^verbatim>\<open>except OSError\<close> catches.
\<close>

datatype error =
    OSError string
  | AttributeError string
  | NoSuchKernel string
  | ValueError string
  | KeyError string
  | ConnectionFailure string
  | AuthenticationFailure string
  | MalformedResponse string

datatype json = JString string | JArray "json list" | JObject "(string \<times> json) list"

text \<open>
  One element of the registry's answer. The manager reads
  \<^verbatim>\<open>environment["namespace"]["name"]\<close>, \<^verbatim>\<open>environment["name"]\<close> and
  \<^verbatim>\<open>environment["current_build_id"]\<close>; the build identifier is an integer (it is
  passed through \<^verbatim>\<open>str\<close> before it becomes a path component). The last three fields
  are what the registry filters on; the manager never reads them.
\<close>

record environment =
  namespace :: string
  name :: string
  current_build_id :: int
  status :: string
  artifact_types :: "string list"
  package_names :: "string list"

text \<open>The arguments the manager gives to \<^verbatim>\<open>KernelSpec(...)\<close>.\<close>

record kernel_spec =
  display_name :: string
  argv :: "string list"
  language :: string
  resource_dir :: string
  metadata :: json

text \<open>
  The configurable traits of \<^verbatim>\<open>CondaStoreKernelSpecManager\<close> and the two private
  attributes set by \<^verbatim>\<open>__init__\<close>.
\<close>

record config =
  conda_store_url :: string
  conda_store_verify_ssl :: bool
  conda_store_auth :: string
  name_format :: string
  conda_store_only :: bool
  kernel_user :: string
  kernel_prefix :: "string option"

definition init :: "string \<Rightarrow> bool \<Rightarrow> string \<Rightarrow> string \<Rightarrow> bool \<Rightarrow> config" where
  "init url verify auth fmt only =
     \<lparr>conda_store_url = url, conda_store_verify_ssl = verify, conda_store_auth = auth,
      name_format = fmt, conda_store_only = only,
      kernel_user = ''--user'', kernel_prefix = None\<rparr>"

datatype log_record = Warning string "string list" "error option"

text \<open>
  The state the manager's methods act on: \<open>clock\<close> counts the registry queries made so
  far (the registry may answer each query differently), \<open>files\<close> is the disk (path to
  content) and \<open>log\<close> is what was given to \<^verbatim>\<open>self.log\<close>.
\<close>

record world =
  clock :: nat
  files :: "string \<rightharpoonup> string"
  log :: "log_record list"

text \<open>
  The code the manager calls and does not define, taken as parameters:
  \<^item> \<open>list_environments url auth verify_ssl t status artifact packages\<close>: the answer of
    \<^verbatim>\<open>conda_store.api.CondaStoreAPI(...).list_environments(...)\<close> to query number \<open>t\<close>,
    entering and leaving the \<^verbatim>\<open>async with\<close> block included;
  \<^item> \<open>str_format template namespace name build\<close>: Python's \<^verbatim>\<open>str.format\<close> with the three
    keyword arguments;
  \<^item> \<open>gettempdir\<close>: \<^verbatim>\<open>tempfile.gettempdir()\<close>;
  \<^item> \<open>install_kernel_spec source_dir kernel_name user prefix disk\<close>: the method inherited
    from \<^verbatim>\<open>jupyter_client.kernelspec.KernelSpecManager\<close>, with what it leaves on disk;
  \<^item> \<open>native_find_kernel_specs\<close>, \<open>native_get_kernel_spec\<close>: the inherited
    \<^verbatim>\<open>find_kernel_specs\<close> and \<^verbatim>\<open>get_kernel_spec\<close>, which read the disk;
  \<^item> \<open>to_dict\<close>: \<^verbatim>\<open>KernelSpec.to_dict\<close>.
\<close>

record collaborators =
  list_environments ::
    "string \<Rightarrow> string \<Rightarrow> bool \<Rightarrow> nat \<Rightarrow> string \<Rightarrow> string \<Rightarrow> string list
      \<Rightarrow> error + environment list"
  str_format :: "string \<Rightarrow> string \<Rightarrow> string \<Rightarrow> int \<Rightarrow> error + string"
  gettempdir :: string
  install_kernel_spec ::
    "string \<Rightarrow> string \<Rightarrow> bool \<Rightarrow> string option \<Rightarrow> (string \<rightharpoonup> string)
      \<Rightarrow> (error + string) \<times> (string \<rightharpoonup> string)"
  native_find_kernel_specs :: "(string \<rightharpoonup> string) \<Rightarrow> (string \<times> string) list"
  native_get_kernel_spec :: "(string \<rightharpoonup> string) \<Rightarrow> string \<Rightarrow> error + kernel_spec"
  to_dict :: "kernel_spec \<Rightarrow> json"

section \<open>Strings, paths and dictionaries\<close>

text \<open>\<^verbatim>\<open>str(build)\<close> for a Python \<^verbatim>\<open>int\<close>: decimal digits, with a leading minus sign.\<close>

definition digit_char :: "nat \<Rightarrow> char" where
  "digit_char d = ''0123456789'' ! d"

fun str_nat :: "nat \<Rightarrow> string" where
  "str_nat n =
     (if n < 10 then [digit_char n] else str_nat (n div 10) @ [digit_char (n mod 10)])"

declare str_nat.simps [simp del]

definition str_int :: "int \<Rightarrow> string" where
  "str_int i = (if i < 0 then CHR ''-'' # str_nat (nat (- i)) else str_nat (nat i))"

text \<open>\<^verbatim>\<open>os.path.join(a, *p)\<close> of \<^verbatim>\<open>posixpath\<close>.\<close>

definition join_component :: "string \<Rightarrow> string \<Rightarrow> string" where
  "join_component path b =
     (if b \<noteq> [] \<and> hd b = CHR ''/'' then b
      else if path = [] \<or> last path = CHR ''/'' then path @ b
      else path @ ''/'' @ b)"

definition os_path_join :: "string \<Rightarrow> string list \<Rightarrow> string" where
  "os_path_join a p = foldl join_component a p"

text \<open>
  A Python \<^verbatim>\<open>dict\<close> is an association list in insertion order with distinct keys:
  \<^verbatim>\<open>d[k] = v\<close> replaces the value in place when the key is there and appends otherwise;
  \<^verbatim>\<open>d.update(other)\<close> stores the items of \<open>other\<close> one after the other.
\<close>

primrec dict_set :: "'k \<Rightarrow> 'v \<Rightarrow> ('k \<times> 'v) list \<Rightarrow> ('k \<times> 'v) list" where
  "dict_set k v [] = [(k, v)]"
| "dict_set k v (p # ps) = (if fst p = k then (k, v) # ps else p # dict_set k v ps)"

primrec dict_update :: "('k \<times> 'v) list \<Rightarrow> ('k \<times> 'v) list \<Rightarrow> ('k \<times> 'v) list" where
  "dict_update d [] = d"
| "dict_update d (p # ps) = dict_update (dict_set (fst p) (snd p) d) ps"

definition dict_get :: "('k \<times> 'v) list \<Rightarrow> 'k \<Rightarrow> 'v option" where
  "dict_get d k = map_of d k"

section \<open>Translation of an environment\<close>

definition identity :: "string \<Rightarrow> string \<Rightarrow> int \<Rightarrow> string" where
  "identity ns nm build = ''conda-store://'' @ ns @ ''/'' @ nm @ '':'' @ str_int build"

definition kernels_dir :: "string \<Rightarrow> string" where
  "kernels_dir nm = ''/usr/local/share/jupyter/kernels/'' @ nm @ ''/''"

definition launch_argv :: "string \<Rightarrow> string list" where
  "launch_argv nm =
     [''python'',
      ''/usr/local/share/jupyter/kernels/'' @ nm @ ''/scripts/launch_kubernetes.py'',
      ''--RemoteProcessProxy.kernel-id'', ''{kernel_id}'',
      ''--RemoteProcessProxy.port-range'', ''{port_range}'',
      ''--RemoteProcessProxy.response-address'', ''{response_address}'',
      ''--RemoteProcessProxy.public-key'', ''{public_key}'']"

definition process_proxy_metadata :: json where
  "process_proxy_metadata =
     JObject [(''process_proxy'', JObject
       [(''class_name'',
          JString ''enterprise_gateway.services.processproxies.k8s.KubernetesProcessProxy''),
        (''config'', JObject [(''image_name'', JString ''elyra/kernel-py:2.6.0'')])])]"

definition resource_dir_of :: "collaborators \<Rightarrow> int \<Rightarrow> string" where
  "resource_dir_of ext build = os_path_join (gettempdir ext) [''conda-store'', str_int build]"

text \<open>
  The \<^verbatim>\<open>KernelSpec(...)\<close> built in the body of the loop of \<^verbatim>\<open>_kernel_specs\<close>, for an
  environment and its formatted display name.
\<close>

definition translate :: "collaborators \<Rightarrow> string \<Rightarrow> environment \<Rightarrow> kernel_spec" where
  "translate ext dn e =
     \<lparr>display_name = dn, argv = launch_argv (name e), language = ''python'',
      resource_dir = resource_dir_of ext (current_build_id e),
      metadata = process_proxy_metadata\<rparr>"

section \<open>The synchronization cycle\<close>

text \<open>
  \<^verbatim>\<open>os.join(destination, "kernel.json")\<close>: the module \<^verbatim>\<open>os\<close> has no attribute
  \<^verbatim>\<open>join\<close> (the function is \<^verbatim>\<open>os.path.join\<close>), so evaluating the expression raises
  \<^verbatim>\<open>AttributeError\<close> before anything is joined.
\<close>

definition os_join :: "string \<Rightarrow> string \<Rightarrow> error" where
  "os_join a b = AttributeError ''module os has no attribute join''"

definition install_warning :: "error \<Rightarrow> log_record" where
  "install_warning err = Warning ''[nb_conda_kernels] Fail to install kernel'' [] (Some err)"

text \<open>
  The \<^verbatim>\<open>for environment in environments\<close> loop of \<^verbatim>\<open>_kernel_specs\<close>, with the
  dictionary \<^verbatim>\<open>kernel_specs\<close> as accumulator. The entry is stored before the installation
  is tried. Inside the \<^verbatim>\<open>try\<close>, \<^verbatim>\<open>install_kernel_spec\<close> either raises or returns a
  destination; in the second case the next statement is the \<^verbatim>\<open>os.join\<close> call, whose
  \<^verbatim>\<open>AttributeError\<close> the handler \<^verbatim>\<open>except OSError\<close> does not catch, so the statements
  after it (\<^verbatim>\<open>copy\<close>, \<^verbatim>\<open>open\<close>, \<^verbatim>\<open>json.dump\<close>) are never reached.
\<close>

fun install_loop ::
  "config \<Rightarrow> collaborators \<Rightarrow> environment list \<Rightarrow> (string \<times> kernel_spec) list \<Rightarrow> world
    \<Rightarrow> (error + (string \<times> kernel_spec) list) \<times> world" where
  "install_loop cfg ext [] specs w = (Inr specs, w)"
| "install_loop cfg ext (e # es) specs w =
     (case str_format ext (name_format cfg) (namespace e) (name e) (current_build_id e) of
        Inl err \<Rightarrow> (Inl err, w)
      | Inr dn \<Rightarrow>
          (let kernel_spec_write = translate ext dn e;
               specs' = dict_set (identity (namespace e) (name e) (current_build_id e))
                          kernel_spec_write specs
           in case install_kernel_spec ext (kernels_dir (name e)) dn True (kernel_prefix cfg)
                     (files w) of
                (Inl (OSError msg), disk) \<Rightarrow>
                   install_loop cfg ext es specs'
                     (w\<lparr>files := disk, log := log w @ [install_warning (OSError msg)]\<rparr>)
              | (Inl err, disk) \<Rightarrow> (Inl err, w\<lparr>files := disk\<rparr>)
              | (Inr destination, disk) \<Rightarrow>
                   (Inl (os_join destination ''kernel.json''), w\<lparr>files := disk\<rparr>)))"

text \<open>
  \<^verbatim>\<open>_kernel_specs\<close>: one query to the registry, then the loop. A failure of the query
  leaves the \<^verbatim>\<open>async with\<close> block as an exception, before the loop.
\<close>

definition kernel_specs_coro ::
  "config \<Rightarrow> collaborators \<Rightarrow> world \<Rightarrow> (error + (string \<times> kernel_spec) list) \<times> world" where
  "kernel_specs_coro cfg ext w =
     (let w1 = w\<lparr>clock := Suc (clock w)\<rparr> in
      case list_environments ext (conda_store_url cfg) (conda_store_auth cfg)
             (conda_store_verify_ssl cfg) (clock w) ''COMPLETED'' ''CONDA_PACK'' [''ipykernel'']
      of Inl err \<Rightarrow> (Inl err, w1)
       | Inr environments \<Rightarrow> install_loop cfg ext environments [] w1)"

text \<open>
  \<^verbatim>\<open>run_sync\<close> runs the coroutine to completion on an event loop and returns its result
  or raises its exception again: the same outcome with a blocking calling convention.
\<close>

definition run_sync :: "('a \<Rightarrow> 'b) \<Rightarrow> 'a \<Rightarrow> 'b" where
  "run_sync coro = coro"

definition kernel_specs ::
  "config \<Rightarrow> collaborators \<Rightarrow> world \<Rightarrow> (error + (string \<times> kernel_spec) list) \<times> world" where
  "kernel_specs cfg ext = run_sync (kernel_specs_coro cfg ext)"

section \<open>The lookup operations\<close>

definition remote_dirs :: "(string \<times> kernel_spec) list \<Rightarrow> (string \<times> string) list" where
  "remote_dirs specs = map (\<lambda>(nm, spec). (nm, resource_dir spec)) specs"

definition find_kernel_specs ::
  "config \<Rightarrow> collaborators \<Rightarrow> world \<Rightarrow> (error + (string \<times> string) list) \<times> world" where
  "find_kernel_specs cfg ext w =
     (let found = (if conda_store_only cfg then [] else native_find_kernel_specs ext (files w))
      in case kernel_specs cfg ext w of
           (Inl err, w') \<Rightarrow> (Inl err, w')
         | (Inr specs, w') \<Rightarrow> (Inr (dict_update found (remote_dirs specs)), w'))"

definition get_kernel_spec ::
  "config \<Rightarrow> collaborators \<Rightarrow> string \<Rightarrow> world \<Rightarrow> (error + kernel_spec option) \<times> world" where
  "get_kernel_spec cfg ext kernel_name w =
     (case kernel_specs cfg ext w of
        (Inl err, w') \<Rightarrow> (Inl err, w')
      | (Inr specs, w') \<Rightarrow>
          (case dict_get specs kernel_name of
             Some spec \<Rightarrow> (Inr (Some spec), w')
           | None \<Rightarrow>
               if \<not> conda_store_only cfg
               then (case native_get_kernel_spec ext (files w') kernel_name of
                       Inl err \<Rightarrow> (Inl err, w')
                     | Inr spec \<Rightarrow> (Inr (Some spec), w'))
               else (Inr None, w')))"

definition load_warning :: "string \<Rightarrow> error \<Rightarrow> log_record" where
  "load_warning nm err = Warning ''Error loading kernelspec %r'' [nm] (Some err)"

text \<open>
  The loop of \<^verbatim>\<open>get_all_specs\<close>. \<^verbatim>\<open>spec.to_dict()\<close> on the \<^verbatim>\<open>None\<close> that
  \<^verbatim>\<open>get_kernel_spec\<close> returns for an unknown name raises \<^verbatim>\<open>AttributeError\<close>; only
  \<^verbatim>\<open>NoSuchKernel\<close> is caught.
\<close>

fun get_all_loop ::
  "config \<Rightarrow> collaborators \<Rightarrow> (string \<times> string) list \<Rightarrow> (string \<times> string \<times> json) list \<Rightarrow> world
    \<Rightarrow> (error + (string \<times> string \<times> json) list) \<times> world" where
  "get_all_loop cfg ext [] result w = (Inr result, w)"
| "get_all_loop cfg ext ((nm, dir) # items) result w =
     (case get_kernel_spec cfg ext nm w of
        (Inl (NoSuchKernel msg), w') \<Rightarrow>
           get_all_loop cfg ext items result
             (w'\<lparr>log := log w' @ [load_warning nm (NoSuchKernel msg)]\<rparr>)
      | (Inl err, w') \<Rightarrow> (Inl err, w')
      | (Inr None, w') \<Rightarrow>
           (Inl (AttributeError ''NoneType object has no attribute to_dict''), w')
      | (Inr (Some spec), w') \<Rightarrow>
           get_all_loop cfg ext items (dict_set nm (dir, to_dict ext spec) result) w')"

definition get_all_specs ::
  "config \<Rightarrow> collaborators \<Rightarrow> world \<Rightarrow> (error + (string \<times> string \<times> json) list) \<times> world" where
  "get_all_specs cfg ext w =
     (case find_kernel_specs cfg ext w of
        (Inl err, w') \<Rightarrow> (Inl err, w')
      | (Inr found, w') \<Rightarrow> get_all_loop cfg ext found [] w')"

text \<open>\<^verbatim>\<open>remove_kernel_spec\<close>: the body is \<^verbatim>\<open>pass\<close>.\<close>

definition remove_kernel_spec ::
  "config \<Rightarrow> collaborators \<Rightarrow> string \<Rightarrow> world \<Rightarrow> (error + unit) \<times> world" where
  "remove_kernel_spec cfg ext nm w = (Inr (), w)"

section \<open>Eligible environments\<close>

text \<open>
  The three arguments of the query the manager sends, as a property of an environment
  record: the status asked for, an artifact of the type asked for, and every package
  asked for. An environment is eligible when it matches the manager's own query. A
  registry honours its filters when every record of every answer matches the query it
  answers.
\<close>

definition matches_query :: "string \<Rightarrow> string \<Rightarrow> string list \<Rightarrow> environment \<Rightarrow> bool" where
  "matches_query st artifact pkgs e \<longleftrightarrow>
     status e = st \<and> artifact \<in> set (artifact_types e) \<and> set pkgs \<subseteq> set (package_names e)"

definition eligible :: "environment \<Rightarrow> bool" where
  "eligible e \<longleftrightarrow>
     status e = ''COMPLETED'' \<and> ''CONDA_PACK'' \<in> set (artifact_types e)
       \<and> ''ipykernel'' \<in> set (package_names e)"

definition honours_filters :: "collaborators \<Rightarrow> bool" where
  "honours_filters ext \<longleftrightarrow>
     (\<forall>url auth verify t st artifact pkgs envs.
        list_environments ext url auth verify t st artifact pkgs = Inr envs
          \<longrightarrow> (\<forall>e \<in> set envs. matches_query st artifact pkgs e))"

section \<open>Concrete instances\<close>

text \<open>
  Two environments of different namespaces and names that share the build identifier 42,
  and one whose build has not completed.
\<close>

definition env_analysis :: environment where
  "env_analysis =
     \<lparr>namespace = ''teamA'', name = ''analysis'', current_build_id = 42,
      status = ''COMPLETED'', artifact_types = [''CONDA_PACK''],
      package_names = [''ipykernel'', ''numpy'']\<rparr>"

definition env_reports :: environment where
  "env_reports =
     \<lparr>namespace = ''teamB'', name = ''reports'', current_build_id = 42,
      status = ''COMPLETED'', artifact_types = [''LOCKFILE'', ''CONDA_PACK''],
      package_names = [''ipykernel'']\<rparr>"

definition env_draft :: environment where
  "env_draft =
     \<lparr>namespace = ''teamA'', name = ''draft'', current_build_id = 7,
      status = ''BUILDING'', artifact_types = [],
      package_names = [''ipykernel'']\<rparr>"

text \<open>What the default template \<^verbatim>\<open>"{namespace}/{name}:{build}"\<close> formats to.\<close>

definition default_format :: "string \<Rightarrow> string \<Rightarrow> string \<Rightarrow> int \<Rightarrow> error + string" where
  "default_format fmt ns nm build = Inr (ns @ ''/'' @ nm @ '':'' @ str_int build)"

definition python3_spec :: kernel_spec where
  "python3_spec =
     \<lparr>display_name = ''Python 3'',
      argv = [''python'', ''-m'', ''ipykernel_launcher'', ''-f'', ''{connection_file}''],
      language = ''python'', resource_dir = ''/usr/share/jupyter/kernels/python3'',
      metadata = JObject []\<rparr>"

text \<open>
  \<^verbatim>\<open>KernelSpec.to_dict\<close> of \<^verbatim>\<open>jupyter_client\<close>, for a specification with the default
  \<^verbatim>\<open>env\<close> and \<^verbatim>\<open>interrupt_mode\<close>.
\<close>

definition spec_dict :: "kernel_spec \<Rightarrow> json" where
  "spec_dict spec =
     JObject [(''argv'', JArray (map JString (argv spec))),
              (''env'', JObject []),
              (''display_name'', JString (display_name spec)),
              (''language'', JString (language spec)),
              (''interrupt_mode'', JString ''signal''),
              (''metadata'', metadata spec)]"

text \<open>
  A machine with one native kernel, on which every installation is refused; the
  registry and the installation are replaced in the instances below.
\<close>

definition local_machine :: collaborators where
  "local_machine =
     \<lparr>list_environments = (\<lambda>url auth verify t st a ps. Inr []),
      str_format = default_format,
      gettempdir = ''/tmp'',
      install_kernel_spec =
        (\<lambda>source_dir kernel_name user prefix disk. (Inl (OSError ''Permission denied''), disk)),
      native_find_kernel_specs = (\<lambda>disk. [(''python3'', ''/usr/share/jupyter/kernels/python3'')]),
      native_get_kernel_spec =
        (\<lambda>disk nm. if nm = ''python3'' then Inr python3_spec else Inl (NoSuchKernel nm)),
      to_dict = spec_dict\<rparr>"

text \<open>A registry that holds the records \<open>db\<close> and answers every query by filtering them.\<close>

definition registry_of ::
  "environment list \<Rightarrow> string \<Rightarrow> string \<Rightarrow> bool \<Rightarrow> nat \<Rightarrow> string \<Rightarrow> string \<Rightarrow> string list
    \<Rightarrow> error + environment list" where
  "registry_of db url auth verify t st artifact pkgs =
     Inr (filter (matches_query st artifact pkgs) db)"

text \<open>A registry that cannot be reached.\<close>

definition unreachable_registry ::
  "string \<Rightarrow> string \<Rightarrow> bool \<Rightarrow> nat \<Rightarrow> string \<Rightarrow> string \<Rightarrow> string list
    \<Rightarrow> error + environment list" where
  "unreachable_registry url auth verify t st artifact pkgs =
     Inl (ConnectionFailure ''Connection refused'')"

text \<open>What the template \<^verbatim>\<open>"{name}-{build}"\<close> formats to.\<close>

definition name_build_format :: "string \<Rightarrow> string \<Rightarrow> string \<Rightarrow> int \<Rightarrow> error + string" where
  "name_build_format fmt ns nm build = Inr (nm @ ''-'' @ str_int build)"

text \<open>
  An installation in the manner of the inherited \<^verbatim>\<open>install_kernel_spec\<close>, on a machine
  where the directories \<open>sources\<close> exist: a kernel name with a character other than
  letters, digits, dot, underscore and hyphen is rejected with \<^verbatim>\<open>ValueError\<close> before the
  disk is touched, and so is a prefix given together with \<^verbatim>\<open>user=True\<close>; copying a
  source directory that does not exist raises \<^verbatim>\<open>FileNotFoundError\<close>, an \<^verbatim>\<open>OSError\<close>;
  otherwise the destination directory is created and returned.
\<close>

definition valid_kernel_name :: "string \<Rightarrow> bool" where
  "valid_kernel_name nm \<longleftrightarrow>
     nm \<noteq> [] \<and>
     list_all (\<lambda>c. c \<in> set ''abcdefghijklmnopqrstuvwxyzABCDEFGHIJKLMNOPQRSTUVWXYZ0123456789._-'')
       nm"

definition jupyter_install ::
  "string list \<Rightarrow> string \<Rightarrow> string \<Rightarrow> bool \<Rightarrow> string option \<Rightarrow> (string \<rightharpoonup> string)
    \<Rightarrow> (error + string) \<times> (string \<rightharpoonup> string)" where
  "jupyter_install sources source_dir kernel_name user prefix disk =
     (if \<not> valid_kernel_name kernel_name then (Inl (ValueError ''Invalid kernel name''), disk)
      else if user \<and> prefix \<noteq> None
        then (Inl (ValueError ''Cannot specify both user and prefix''), disk)
      else if source_dir \<notin> set sources
        then (Inl (OSError ''No such file or directory''), disk)
      else (Inr (''/home/jovyan/.local/share/jupyter/kernels/'' @ kernel_name),
            disk(''/home/jovyan/.local/share/jupyter/kernels/'' @ kernel_name
                   \<mapsto> ''<directory>'')))"

definition default_config :: config where
  "default_config =
     init ''http://localhost:5000/'' True ''none'' ''{namespace}/{name}:{build}'' False"

definition fresh_world :: world where
  "fresh_world = \<lparr>clock = 0, files = Map.empty, log = []\<rparr>"

definition remote_only_config :: config where
  "remote_only_config = default_config\<lparr>conda_store_only := True\<rparr>"

text \<open>
  The registry holds the three environments; every installation is refused, so every
  cycle runs to its end.
\<close>

definition refusing_machine :: collaborators where
  "refusing_machine =
     local_machine\<lparr>list_environments := registry_of [env_analysis, env_draft, env_reports]\<rparr>"

definition refused_specs :: "(string \<times> kernel_spec) list" where
  "refused_specs =
     [(''conda-store://teamA/analysis:42'',
         translate refusing_machine ''teamA/analysis:42'' env_analysis),
      (''conda-store://teamB/reports:42'',
         translate refusing_machine ''teamB/reports:42'' env_reports)]"

definition refused_world :: world where
  "refused_world =
     \<lparr>clock = 1, files = Map.empty,
      log = [install_warning (OSError ''Permission denied''),
             install_warning (OSError ''Permission denied'')]\<rparr>"

text \<open>The same, with a native kernel installed under the identity of a remote one.\<close>

definition shadowed_machine :: collaborators where
  "shadowed_machine =
     refusing_machine\<lparr>native_find_kernel_specs :=
       (\<lambda>disk. [(''conda-store://teamA/analysis:42'', ''/opt/kernels/stale''),
                 (''python3'', ''/usr/share/jupyter/kernels/python3'')])\<rparr>"

text \<open>
  An empty registry and a native kernel directory \<^verbatim>\<open>broken\<close> that the native search
  lists and the native lookup cannot load.
\<close>

definition broken_kernel_machine :: collaborators where
  "broken_kernel_machine =
     local_machine\<lparr>native_find_kernel_specs :=
       (\<lambda>disk. [(''broken'', ''/usr/share/jupyter/kernels/broken''),
                 (''python3'', ''/usr/share/jupyter/kernels/python3'')])\<rparr>"

text \<open>The configuration with a template that formats to valid kernel names.\<close>

definition dashed_config :: config where
  "dashed_config = init ''http://localhost:5000/'' True ''none'' ''{name}-{build}'' False"

definition dashed_remote_only_config :: config where
  "dashed_remote_only_config = dashed_config\<lparr>conda_store_only := True\<rparr>"

text \<open>
  One environment in the registry, whose launcher directory exists: its installation
  succeeds.
\<close>

definition installing_machine :: collaborators where
  "installing_machine =
     local_machine\<lparr>list_environments := registry_of [env_analysis],
                   str_format := name_build_format,
                   install_kernel_spec :=
                     jupyter_install [''/usr/local/share/jupyter/kernels/analysis/'']\<rparr>"

text \<open>
  The three environments in the registry and no launcher directory on the machine: every
  installation fails with \<^verbatim>\<open>FileNotFoundError\<close>.
\<close>

definition bare_machine :: collaborators where
  "bare_machine =
     local_machine\<lparr>list_environments := registry_of [env_analysis, env_draft, env_reports],
                   str_format := name_build_format,
                   install_kernel_spec := jupyter_install []\<rparr>"

definition bare_specs :: "(string \<times> kernel_spec) list" where
  "bare_specs =
     [(''conda-store://teamA/analysis:42'', translate bare_machine ''analysis-42'' env_analysis),
      (''conda-store://teamB/reports:42'', translate bare_machine ''reports-42'' env_reports)]"

definition bare_world :: world where
  "bare_world =
     \<lparr>clock = 1, files = Map.empty,
      log = [install_warning (OSError ''No such file or directory''),
             install_warning (OSError ''No such file or directory'')]\<rparr>"

text \<open>
  As \<open>bare_machine\<close>, with a registry that holds one environment when it is first asked
  and none afterwards: the environment is deleted between two queries.
\<close>

definition vanishing_registry ::
  "string \<Rightarrow> string \<Rightarrow> bool \<Rightarrow> nat \<Rightarrow> string \<Rightarrow> string \<Rightarrow> string list
    \<Rightarrow> error + environment list" where
  "vanishing_registry url auth verify t st artifact pkgs =
     (if t = 0 then registry_of [env_analysis] url auth verify t st artifact pkgs
      else registry_of [] url auth verify t st artifact pkgs)"

definition vanishing_machine :: collaborators where
  "vanishing_machine = bare_machine\<lparr>list_environments := vanishing_registry\<rparr>"

section \<open>Rendering of integers\<close>

lemma digit_char_cases: "d < 10 \<Longrightarrow> digit_char d \<in> set ''0123456789''"
proof -
  assume "d < 10"
  then have "d \<in> {0, 1, 2, 3, 4, 5, 6, 7, 8, 9}" by auto
  then show ?thesis by (auto simp: digit_char_def)
qed

lemma digit_char_inj: "a < 10 \<Longrightarrow> b < 10 \<Longrightarrow> digit_char a = digit_char b \<Longrightarrow> a = b"
proof -
  have d: "distinct ''0123456789''" by simp
  assume "a < 10" "b < 10" "digit_char a = digit_char b"
  then show ?thesis
    using d unfolding digit_char_def by (simp add: nth_eq_iff_index_eq del: distinct.simps)
qed

lemma str_nat_chars: "set (str_nat n) \<subseteq> set ''0123456789''"
proof (induction n rule: str_nat.induct)
  case (1 n)
  show ?case
  proof (cases "n < 10")
    case True
    then show ?thesis using digit_char_cases [of n] by (subst str_nat.simps) simp
  next
    case False
    have "n mod 10 < 10" by simp
    then have "digit_char (n mod 10) \<in> set ''0123456789''" by (rule digit_char_cases)
    with False 1 show ?thesis by (subst str_nat.simps) simp
  qed
qed

lemma str_nat_not_Nil: "str_nat n \<noteq> []"
  by (subst str_nat.simps) simp

lemma str_nat_inj: "str_nat n = str_nat m \<Longrightarrow> n = m"
proof (induction n arbitrary: m rule: str_nat.induct)
  case (1 n)
  show ?case
  proof (cases "n < 10")
    case n: True
    show ?thesis
    proof (cases "m < 10")
      case True
      with n 1(2) show ?thesis
        by (simp add: str_nat.simps [of n] str_nat.simps [of m] digit_char_inj)
    next
      case False
      with n 1(2) str_nat_not_Nil [of "m div 10"] show ?thesis
        by (auto simp add: str_nat.simps [of n] str_nat.simps [of m])
    qed
  next
    case n: False
    show ?thesis
    proof (cases "m < 10")
      case True
      with n 1(2) show ?thesis
        by (simp add: str_nat.simps [of n] str_nat.simps [of m] str_nat_not_Nil)
    next
      case False
      with n 1(2) have eq: "str_nat (n div 10) = str_nat (m div 10)"
        and dg: "digit_char (n mod 10) = digit_char (m mod 10)"
        by (simp_all add: str_nat.simps [of n] str_nat.simps [of m])
      from 1(1) [OF n eq] have "n div 10 = m div 10" .
      moreover from dg have "n mod 10 = m mod 10" by (simp add: digit_char_inj)
      ultimately show ?thesis by (metis div_mult_mod_eq)
    qed
  qed
qed

lemma str_int_inj: "str_int a = str_int b \<Longrightarrow> a = b"
proof -
  assume eq: "str_int a = str_int b"
  have minus: "\<And>n. hd (str_nat n) \<noteq> CHR ''-''"
  proof -
    fix n
    have "hd (str_nat n) \<in> set (str_nat n)" by (simp add: str_nat_not_Nil)
    with str_nat_chars [of n] show "hd (str_nat n) \<noteq> CHR ''-''" by auto
  qed
  have neq: "\<And>n m. CHR ''-'' # str_nat n \<noteq> str_nat m"
    using minus by (metis list.sel(1))
  show ?thesis
  proof (cases "a < 0"; cases "b < 0")
    assume "a < 0" "b < 0"
    with eq have "nat (- a) = nat (- b)" by (simp add: str_int_def str_nat_inj)
    with \<open>a < 0\<close> \<open>b < 0\<close> show ?thesis by simp
  next
    assume "a < 0" "\<not> b < 0"
    with eq neq show ?thesis by (simp add: str_int_def)
  next
    assume "\<not> a < 0" "b < 0"
    with eq neq [of "nat (- b)" "nat a"] show ?thesis by (simp add: str_int_def)
  next
    assume "\<not> a < 0" "\<not> b < 0"
    with eq have "nat a = nat b" by (simp add: str_int_def str_nat_inj)
    with \<open>\<not> a < 0\<close> \<open>\<not> b < 0\<close> show ?thesis by simp
  qed
qed

lemma str_int_no_colon: "CHR '':'' \<notin> set (str_int b)"
  using str_nat_chars [of "nat b"] str_nat_chars [of "nat (- b)"]
  by (auto simp: str_int_def)

lemma str_int_no_slash: "CHR ''/'' \<notin> set (str_int b)"
  using str_nat_chars [of "nat b"] str_nat_chars [of "nat (- b)"]
  by (auto simp: str_int_def)

section \<open>Splitting a string at a separator\<close>

lemma split_at_first:
  "c \<notin> set xs \<Longrightarrow> c \<notin> set ys \<Longrightarrow> xs @ c # r = ys @ c # s \<Longrightarrow> xs = ys \<and> r = s"
proof (induction xs arbitrary: ys)
  case Nil
  then show ?case by (cases ys) auto
next
  case (Cons x xs)
  then show ?case by (cases ys) auto
qed

lemma split_at_last:
  assumes "c \<notin> set r" "c \<notin> set s" "xs @ c # r = ys @ c # s"
  shows "xs = ys \<and> r = s"
proof -
  from assms(3) have "rev r @ c # rev xs = rev s @ c # rev ys"
    by (metis rev.simps(2) rev_append append_assoc append_Cons append_Nil)
  with assms(1,2) have "rev r = rev s \<and> rev xs = rev ys"
    by (intro split_at_first) simp_all
  then show ?thesis by simp
qed

section \<open>Identities\<close>

text \<open>
  C3, as stated: two distinct (namespace, name, build) triples always receive distinct
  identities. The identity is a plain concatenation, so a slash can move from the
  namespace to the name: the namespace \<^verbatim>\<open>a/b\<close> with the name \<^verbatim>\<open>c\<close> and the namespace
  \<^verbatim>\<open>a\<close> with the name \<^verbatim>\<open>b/c\<close> both give \<^verbatim>\<open>conda-store://a/b/c:1\<close>.
\<close>

theorem identity_not_injective:
  "(''a/b'', ''c'', 1 :: int) \<noteq> (''a'', ''b/c'', 1)
    \<and> identity ''a/b'' ''c'' 1 = identity ''a'' ''b/c'' 1"
  by (simp add: identity_def)

text \<open>
  C3, amended: two distinct triples receive distinct identities when neither namespace
  contains a slash, and also when neither name contains a slash. The build identifier is
  an integer, whose decimal rendering contains neither a colon nor a slash.
\<close>

theorem identity_injective_without_slash:
  assumes "(CHR ''/'' \<notin> set ns1 \<and> CHR ''/'' \<notin> set ns2)
            \<or> (CHR ''/'' \<notin> set nm1 \<and> CHR ''/'' \<notin> set nm2)"
    and "(ns1, nm1, b1) \<noteq> (ns2, nm2, b2)"
  shows "identity ns1 nm1 b1 \<noteq> identity ns2 nm2 b2"
proof
  assume "identity ns1 nm1 b1 = identity ns2 nm2 b2"
  then have eq: "ns1 @ CHR ''/'' # (nm1 @ CHR '':'' # str_int b1)
               = ns2 @ CHR ''/'' # (nm2 @ CHR '':'' # str_int b2)"
    by (simp add: identity_def)
  have tail: "nm1 @ CHR '':'' # str_int b1 = nm2 @ CHR '':'' # str_int b2
      \<Longrightarrow> nm1 = nm2 \<and> b1 = b2"
    using split_at_last [OF str_int_no_colon str_int_no_colon] str_int_inj by blast
  from assms(1) have "ns1 = ns2 \<and> nm1 = nm2 \<and> b1 = b2"
  proof
    assume "CHR ''/'' \<notin> set ns1 \<and> CHR ''/'' \<notin> set ns2"
    with eq have "ns1 = ns2 \<and> nm1 @ CHR '':'' # str_int b1 = nm2 @ CHR '':'' # str_int b2"
      by (intro split_at_first) simp_all
    with tail show ?thesis by simp
  next
    assume "CHR ''/'' \<notin> set nm1 \<and> CHR ''/'' \<notin> set nm2"
    then have "CHR ''/'' \<notin> set (nm1 @ CHR '':'' # str_int b1)"
      and "CHR ''/'' \<notin> set (nm2 @ CHR '':'' # str_int b2)"
      by (simp_all add: str_int_no_slash)
    with eq have "ns1 = ns2 \<and> nm1 @ CHR '':'' # str_int b1 = nm2 @ CHR '':'' # str_int b2"
      by (intro split_at_last)
    with tail show ?thesis by simp
  qed
  with assms(2) show False by simp
qed

theorem identity_injective_without_slash_witness:
  "CHR ''/'' \<notin> set ''teamA'' \<and> (''teamA'', ''analysis'', 42 :: int) \<noteq> (''teamA'', ''report'', 42)
    \<and> identity ''teamA'' ''analysis'' 42 \<noteq> identity ''teamA'' ''report'' 42"
  using identity_injective_without_slash [of "''teamA''" "''teamA''" "''analysis''" "''report''" 42 42]
  by simp

section \<open>Resource directories\<close>

text \<open>
  C10: the resource directory of a translated definition is computed from the build
  identifier (and the temporary directory of the machine) alone, so two environments with
  the same current build identifier receive the same resource directory, whatever their
  namespaces, names and display names.
\<close>

theorem resource_dir_depends_on_build_only:
  "current_build_id e1 = current_build_id e2
    \<Longrightarrow> resource_dir (translate ext dn1 e1) = resource_dir (translate ext dn2 e2)"
  by (simp add: translate_def)

theorem resource_dir_depends_on_build_only_witness:
  "current_build_id env_analysis = current_build_id env_reports
    \<and> namespace env_analysis \<noteq> namespace env_reports
    \<and> name env_analysis \<noteq> name env_reports
    \<and> resource_dir (translate local_machine ''teamA/analysis:42'' env_analysis)
        = resource_dir (translate local_machine ''teamB/reports:42'' env_reports)"
  using resource_dir_depends_on_build_only
    [of env_analysis env_reports local_machine "''teamA/analysis:42''" "''teamB/reports:42''"]
  by (simp add: env_analysis_def env_reports_def)

section \<open>Removal\<close>

text \<open>
  C9: for every identity and every state, \<^verbatim>\<open>remove_kernel_spec\<close> returns normally and
  leaves the state (the disk included) as it was.
\<close>

theorem remove_kernel_spec_is_noop:
  "fst (remove_kernel_spec cfg ext nm w) = Inr ()
    \<and> snd (remove_kernel_spec cfg ext nm w) = w
    \<and> files (snd (remove_kernel_spec cfg ext nm w)) = files w"
  by (simp add: remove_kernel_spec_def)

section \<open>Dictionaries\<close>

lemma map_of_dict_set: "map_of (dict_set k v d) = (map_of d)(k \<mapsto> v)"
  by (induction d) auto

lemma keys_dict_set: "fst ` set (dict_set k v d) = insert k (fst ` set d)"
  by (induction d) auto

lemma set_dict_set: "set (dict_set k v d) \<subseteq> insert (k, v) (set d)"
  by (induction d) auto

lemma distinct_dict_set: "distinct (map fst d) \<Longrightarrow> distinct (map fst (dict_set k v d))"
  by (induction d) (auto simp: keys_dict_set)

lemma dict_set_new: "k \<notin> fst ` set d \<Longrightarrow> dict_set k v d = d @ [(k, v)]"
  by (induction d) auto

lemma dict_update_fresh:
  "distinct (map fst (d @ other)) \<Longrightarrow> dict_update d other = d @ other"
proof (induction other arbitrary: d)
  case Nil
  then show ?case by simp
next
  case (Cons p ps)
  from Cons.prems have new: "fst p \<notin> fst ` set d" by auto
  from Cons.prems have "distinct (map fst ((d @ [p]) @ ps))" by auto
  then have "dict_update (d @ [p]) ps = (d @ [p]) @ ps" by (rule Cons.IH)
  with new show ?case by (simp add: dict_set_new)
qed

lemma map_of_dict_update:
  "distinct (map fst other) \<Longrightarrow> map_of (dict_update d other) = map_of d ++ map_of other"
proof (induction other arbitrary: d)
  case Nil
  then show ?case by simp
next
  case (Cons p ps)
  then have "fst p \<notin> dom (map_of ps)" by (auto simp: dom_map_of_conv_image_fst)
  then have "map_of ps (fst p) = None" by auto
  moreover from Cons have "map_of (dict_update (dict_set (fst p) (snd p) d) ps)
      = map_of (dict_set (fst p) (snd p) d) ++ map_of ps" by simp
  ultimately show ?case
    by (cases p) (auto simp: map_of_dict_set map_add_def fun_eq_iff split: option.splits)
qed

lemma install_loop_distinct:
  "install_loop cfg ext es specs w = (Inr r, w') \<Longrightarrow> distinct (map fst specs)
    \<Longrightarrow> distinct (map fst r)"
proof (induction cfg ext es specs w rule: install_loop.induct)
  case (1 cfg ext specs w)
  then show ?case by simp
next
  case (2 cfg ext e es specs w)
  then show ?case
    by (auto split: sum.splits prod.splits error.splits simp: Let_def distinct_dict_set)
qed

section \<open>Evaluating the instances\<close>

lemmas instance_defs =
  default_config_def init_def fresh_world_def local_machine_def registry_of_def
  unreachable_registry_def name_build_format_def valid_kernel_name_def jupyter_install_def
  default_format_def
  env_analysis_def env_reports_def env_draft_def matches_query_def
  remote_only_config_def refusing_machine_def shadowed_machine_def broken_kernel_machine_def
  refused_specs_def refused_world_def installing_machine_def bare_machine_def
  dashed_config_def dashed_remote_only_config_def vanishing_registry_def vanishing_machine_def
  bare_specs_def bare_world_def
  python3_spec_def spec_dict_def

lemmas cycle_defs =
  kernel_specs_def run_sync_def kernel_specs_coro_def translate_def identity_def
  resource_dir_of_def os_path_join_def join_component_def kernels_dir_def os_join_def
  install_warning_def str_int_def str_nat.simps digit_char_def

section \<open>Facts about the cycle\<close>


lemma install_loop_installed:
  assumes "str_format ext (name_format cfg) (namespace e) (name e) (current_build_id e) = Inr dn"
    and "install_kernel_spec ext (kernels_dir (name e)) dn True (kernel_prefix cfg) (files w)
           = (Inr destination, disk)"
  shows "install_loop cfg ext (e # es) specs w
           = (Inl (AttributeError ''module os has no attribute join''), w\<lparr>files := disk\<rparr>)"
  using assms by (simp add: os_join_def)

lemma install_loop_sources:
  "install_loop cfg ext es specs w = (Inr r, w') \<Longrightarrow> (k, s) \<in> set r
    \<Longrightarrow> (k, s) \<in> set specs
      \<or> (\<exists>e \<in> set es. \<exists>dn.
            str_format ext (name_format cfg) (namespace e) (name e) (current_build_id e) = Inr dn
            \<and> k = identity (namespace e) (name e) (current_build_id e)
            \<and> s = translate ext dn e)"
proof (induction cfg ext es specs w rule: install_loop.induct)
  case (1 cfg ext specs w)
  then show ?case by simp
next
  case (2 cfg ext e es specs w)
  from "2.prems"(1) obtain dn msg disk where
    fmt: "str_format ext (name_format cfg) (namespace e) (name e) (current_build_id e) = Inr dn"
    and ins: "install_kernel_spec ext (kernels_dir (name e)) dn True (kernel_prefix cfg) (files w)
               = (Inl (OSError msg), disk)"
    and rest: "install_loop cfg ext es
                 (dict_set (identity (namespace e) (name e) (current_build_id e))
                    (translate ext dn e) specs)
                 (w\<lparr>files := disk, log := log w @ [install_warning (OSError msg)]\<rparr>)
               = (Inr r, w')"
    by (auto split: sum.splits prod.splits error.splits simp: Let_def)
  from "2.IH" [OF fmt refl refl ins [symmetric] refl refl rest "2.prems"(2)]
  show ?case using fmt set_dict_set by fastforce
qed

lemma kernel_specs_distinct:
  assumes "kernel_specs cfg ext w = (Inr specs, w')"
  shows "distinct (map fst specs)"
proof -
  from assms obtain envs where
    "install_loop cfg ext envs [] (w\<lparr>clock := Suc (clock w)\<rparr>) = (Inr specs, w')"
    by (auto simp: kernel_specs_def run_sync_def kernel_specs_coro_def Let_def
             split: sum.splits)
  then show ?thesis using install_loop_distinct by fastforce
qed

lemma keys_remote_dirs: "map fst (remote_dirs specs) = map fst specs"
  by (induction specs) (auto simp: remote_dirs_def)

lemma install_loop_log:
  "install_loop cfg ext es specs w = (r, w') \<Longrightarrow> set (log w) \<subseteq> set (log w')"
proof (induction cfg ext es specs w rule: install_loop.induct)
  case (1 cfg ext specs w)
  then show ?case by simp
next
  case (2 cfg ext e es specs w)
  show ?case
  proof (cases "str_format ext (name_format cfg) (namespace e) (name e) (current_build_id e)")
    case (Inl err)
    with "2.prems" show ?thesis by simp
  next
    case (Inr dn)
    obtain outcome disk where
      ins: "install_kernel_spec ext (kernels_dir (name e)) dn True (kernel_prefix cfg) (files w)
             = (outcome, disk)"
      by (cases "install_kernel_spec ext (kernels_dir (name e)) dn True (kernel_prefix cfg)
                   (files w)")
    show ?thesis
    proof (cases "\<exists>msg. outcome = Inl (OSError msg)")
      case True
      then obtain msg where o: "outcome = Inl (OSError msg)" ..
      with "2.prems" Inr ins have
        "install_loop cfg ext es
           (dict_set (identity (namespace e) (name e) (current_build_id e))
              (translate ext dn e) specs)
           (w\<lparr>files := disk, log := log w @ [install_warning (OSError msg)]\<rparr>) = (r, w')"
        by (simp add: Let_def)
      from "2.IH" [OF Inr refl refl _ refl refl this] ins o
      show ?thesis by simp
    next
      case False
      with "2.prems" Inr ins show ?thesis
        by (auto simp: Let_def split: sum.splits error.splits)
    qed
  qed
qed

lemma kernel_specs_log:
  "kernel_specs cfg ext w = (r, w') \<Longrightarrow> set (log w) \<subseteq> set (log w')"
  using install_loop_log [of cfg ext _ "[]" "w\<lparr>clock := Suc (clock w)\<rparr>" r w']
  by (auto simp: kernel_specs_def run_sync_def kernel_specs_coro_def Let_def split: sum.splits)

lemma get_kernel_spec_log:
  "get_kernel_spec cfg ext nm w = (r, w') \<Longrightarrow> set (log w) \<subseteq> set (log w')"
  using kernel_specs_log [of cfg ext w]
  by (auto simp: get_kernel_spec_def split: prod.splits sum.splits option.splits if_splits)

lemma get_all_loop_log:
  "get_all_loop cfg ext items result w = (r, w') \<Longrightarrow> set (log w) \<subseteq> set (log w')"
proof (induction cfg ext items result w rule: get_all_loop.induct)
  case (1 cfg ext result w)
  then show ?case by simp
next
  case (2 cfg ext nm dir items result w)
  obtain outcome w1 where g: "get_kernel_spec cfg ext nm w = (outcome, w1)"
    by (cases "get_kernel_spec cfg ext nm w")
  then have mono: "set (log w) \<subseteq> set (log w1)" by (rule get_kernel_spec_log)
  show ?case
  proof (cases outcome)
    case (Inl err)
    show ?thesis
    proof (cases "\<exists>msg. err = NoSuchKernel msg")
      case True
      then obtain msg where e: "err = NoSuchKernel msg" ..
      with "2.prems" g Inl have
        "get_all_loop cfg ext items result
           (w1\<lparr>log := log w1 @ [load_warning nm (NoSuchKernel msg)]\<rparr>) = (r, w')"
        by simp
      from "2.IH"(1) [OF g [symmetric] Inl e this] mono show ?thesis by auto
    next
      case False
      with "2.prems" g Inl mono show ?thesis by (auto split: error.splits)
    qed
  next
    case (Inr found)
    show ?thesis
    proof (cases found)
      case None
      with "2.prems" g Inr mono show ?thesis by auto
    next
      case (Some spec)
      with "2.prems" g Inr have
        "get_all_loop cfg ext items (dict_set nm (dir, to_dict ext spec) result) w1 = (r, w')"
        by simp
      from "2.IH"(2) [OF g [symmetric] Inr Some this] mono show ?thesis by auto
    qed
  qed
qed

lemma get_all_loop_append:
  "get_all_loop cfg ext pre result w = (Inr r1, w1)
    \<Longrightarrow> get_all_loop cfg ext (pre @ post) result w = get_all_loop cfg ext post r1 w1"
proof (induction cfg ext pre result w rule: get_all_loop.induct)
  case (1 cfg ext result w)
  then show ?case by simp
next
  case (2 cfg ext nm dir items result w)
  then show ?case
    by (auto split: prod.splits sum.splits error.splits option.splits)
qed

lemma get_all_loop_keys:
  "get_all_loop cfg ext items result w = (Inr res, w')
    \<Longrightarrow> fst ` set res \<subseteq> fst ` set result \<union> fst ` set items"
proof (induction cfg ext items result w rule: get_all_loop.induct)
  case (1 cfg ext result w)
  then show ?case by simp
next
  case (2 cfg ext nm dir items result w)
  obtain outcome w1 where g: "get_kernel_spec cfg ext nm w = (outcome, w1)"
    by (cases "get_kernel_spec cfg ext nm w")
  show ?case
  proof (cases outcome)
    case (Inl err)
    show ?thesis
    proof (cases "\<exists>msg. err = NoSuchKernel msg")
      case True
      then obtain msg where e: "err = NoSuchKernel msg" ..
      with "2.prems" g Inl have
        "get_all_loop cfg ext items result
           (w1\<lparr>log := log w1 @ [load_warning nm (NoSuchKernel msg)]\<rparr>) = (Inr res, w')"
        by simp
      from "2.IH"(1) [OF g [symmetric] Inl e this] show ?thesis by auto
    next
      case False
      with "2.prems" g Inl show ?thesis by (auto split: error.splits)
    qed
  next
    case (Inr found)
    show ?thesis
    proof (cases found)
      case None
      with "2.prems" g Inr show ?thesis by auto
    next
      case (Some spec)
      with "2.prems" g Inr have
        "get_all_loop cfg ext items (dict_set nm (dir, to_dict ext spec) result) w1 = (Inr res, w')"
        by simp
      from "2.IH"(2) [OF g [symmetric] Inr Some this] show ?thesis
        by (auto simp: keys_dict_set)
    qed
  qed
qed



section \<open>Installation\<close>



text \<open>
  C2 says that a definition whose installation step succeeds is written as JSON to
  \<^verbatim>\<open>kernel.json\<close> in its resource directory. On \<open>installing_machine\<close>, with the
  template \<^verbatim>\<open>"{name}-{build}"\<close>, the installation of the one definition succeeds; the
  cycle ends with the \<^verbatim>\<open>AttributeError\<close> of \<^verbatim>\<open>os.join\<close>, and afterwards the disk holds
  the directory the installation created and nothing else: no \<^verbatim>\<open>kernel.json\<close> in the
  resource directory, and none in the destination directory either.
\<close>

theorem kernel_json_not_written:
  "fst (kernel_specs dashed_config installing_machine fresh_world)
     = Inl (AttributeError ''module os has no attribute join'')
   \<and> resource_dir (translate installing_machine ''analysis-42'' env_analysis)
     = ''/tmp/conda-store/42''
   \<and> files (snd (kernel_specs dashed_config installing_machine fresh_world))
       ''/tmp/conda-store/42/kernel.json'' = None
   \<and> files (snd (kernel_specs dashed_config installing_machine fresh_world))
     = [''/home/jovyan/.local/share/jupyter/kernels/analysis-42'' \<mapsto> ''<directory>'']"
  by (simp add: instance_defs cycle_defs)

section \<open>Failure of the registry query\<close>

text \<open>
  C7: when the registry query of a cycle fails, whatever the error (connection,
  authentication or malformed answer), \<^verbatim>\<open>find_kernel_specs\<close> raises that error, returns
  no mapping, and leaves the disk (and the log) as they were.
\<close>

theorem registry_failure_propagates:
  assumes "list_environments ext (conda_store_url cfg) (conda_store_auth cfg)
             (conda_store_verify_ssl cfg) (clock w) ''COMPLETED'' ''CONDA_PACK'' [''ipykernel'']
           = Inl err"
  shows "fst (find_kernel_specs cfg ext w) = Inl err
    \<and> files (snd (find_kernel_specs cfg ext w)) = files w
    \<and> log (snd (find_kernel_specs cfg ext w)) = log w"
  using assms
  by (simp add: find_kernel_specs_def kernel_specs_def run_sync_def kernel_specs_coro_def)

theorem registry_failure_propagates_witness:
  "list_environments (local_machine\<lparr>list_environments := unreachable_registry\<rparr>)
      (conda_store_url default_config) (conda_store_auth default_config)
      (conda_store_verify_ssl default_config) (clock fresh_world)
      ''COMPLETED'' ''CONDA_PACK'' [''ipykernel'']
     = Inl (ConnectionFailure ''Connection refused'')
   \<and> fst (find_kernel_specs default_config
            (local_machine\<lparr>list_environments := unreachable_registry\<rparr>) fresh_world)
     = Inl (ConnectionFailure ''Connection refused'')
   \<and> files (snd (find_kernel_specs default_config
            (local_machine\<lparr>list_environments := unreachable_registry\<rparr>) fresh_world))
     = Map.empty"
  using registry_failure_propagates
    [of "local_machine\<lparr>list_environments := unreachable_registry\<rparr>" default_config
        fresh_world "ConnectionFailure ''Connection refused''"]
  by (simp add: unreachable_registry_def fresh_world_def)

section \<open>Eligibility\<close>

text \<open>
  C8: the cycle asks the registry for the environments with status \<^verbatim>\<open>COMPLETED\<close>, an
  artifact \<^verbatim>\<open>CONDA_PACK\<close> and the package \<^verbatim>\<open>ipykernel\<close>, and translates the records of
  the answer and nothing else. With a registry that honours its filters, every kernel
  definition a cycle returns is therefore the translation of an eligible record of the
  answer: no definition is produced for a record that is not \<^verbatim>\<open>COMPLETED\<close>, or lacks the
  artifact, or lacks the package.
\<close>

theorem only_eligible_translated:
  assumes "honours_filters ext"
    and "kernel_specs cfg ext w = (Inr specs, w')"
    and "(k, spec) \<in> set specs"
  shows "\<exists>envs e dn.
           list_environments ext (conda_store_url cfg) (conda_store_auth cfg)
             (conda_store_verify_ssl cfg) (clock w) ''COMPLETED'' ''CONDA_PACK'' [''ipykernel'']
            = Inr envs
           \<and> e \<in> set envs \<and> eligible e
           \<and> str_format ext (name_format cfg) (namespace e) (name e) (current_build_id e) = Inr dn
           \<and> k = identity (namespace e) (name e) (current_build_id e)
           \<and> spec = translate ext dn e"
proof -
  from assms(2) obtain envs where
    q: "list_environments ext (conda_store_url cfg) (conda_store_auth cfg)
          (conda_store_verify_ssl cfg) (clock w) ''COMPLETED'' ''CONDA_PACK'' [''ipykernel'']
        = Inr envs"
    and loop: "install_loop cfg ext envs [] (w\<lparr>clock := Suc (clock w)\<rparr>) = (Inr specs, w')"
    by (auto simp: kernel_specs_def run_sync_def kernel_specs_coro_def Let_def
             split: sum.splits)
  from install_loop_sources [OF loop assms(3)] obtain e dn where
    e: "e \<in> set envs"
    and fmt: "str_format ext (name_format cfg) (namespace e) (name e) (current_build_id e) = Inr dn"
    and k: "k = identity (namespace e) (name e) (current_build_id e)"
    and s: "spec = translate ext dn e"
    by auto
  from assms(1) q e have "matches_query ''COMPLETED'' ''CONDA_PACK'' [''ipykernel''] e"
    unfolding honours_filters_def by blast
  then have "eligible e" by (simp add: matches_query_def eligible_def)
  with q e fmt k s show ?thesis by blast
qed

theorem only_eligible_translated_witness:
  "honours_filters refusing_machine
   \<and> kernel_specs default_config refusing_machine fresh_world = (Inr refused_specs, refused_world)
   \<and> (''conda-store://teamA/analysis:42'',
        translate refusing_machine ''teamA/analysis:42'' env_analysis) \<in> set refused_specs
   \<and> \<not> eligible env_draft
   \<and> (\<exists>envs e dn.
         list_environments refusing_machine (conda_store_url default_config)
           (conda_store_auth default_config) (conda_store_verify_ssl default_config)
           (clock fresh_world) ''COMPLETED'' ''CONDA_PACK'' [''ipykernel''] = Inr envs
         \<and> e \<in> set envs \<and> eligible e
         \<and> str_format refusing_machine (name_format default_config) (namespace e) (name e)
             (current_build_id e) = Inr dn
         \<and> ''conda-store://teamA/analysis:42''
             = identity (namespace e) (name e) (current_build_id e)
         \<and> translate refusing_machine ''teamA/analysis:42'' env_analysis
             = translate refusing_machine dn e)"
proof -
  have h: "honours_filters refusing_machine"
    by (auto simp: honours_filters_def refusing_machine_def local_machine_def registry_of_def)
  have a: "kernel_specs default_config refusing_machine fresh_world
      = (Inr refused_specs, refused_world)"
    by (simp add: instance_defs cycle_defs)
  have m: "(''conda-store://teamA/analysis:42'',
        translate refusing_machine ''teamA/analysis:42'' env_analysis) \<in> set refused_specs"
    by (simp add: refused_specs_def)
  have d: "\<not> eligible env_draft" by (simp add: eligible_def env_draft_def)
  from only_eligible_translated [OF h a m] h a m d show ?thesis by blast
qed

section \<open>Find all\<close>

text \<open>
  The merge of \<^verbatim>\<open>find_kernel_specs\<close>, for a cycle that returns the remote definitions
  \<open>specs\<close>. In remote-only mode the result is exactly their identities with their
  resource directories, and no native entry. Otherwise it is the native mapping overridden
  by the remote one: a remote entry replaces the native entry of the same identity. When
  the registry answers with no environment and remote-only mode is off, the result is
  exactly the native mapping.
\<close>

lemma find_kernel_specs_merge:
  "(kernel_specs cfg ext w = (Inr specs, w') \<longrightarrow>
      (conda_store_only cfg \<longrightarrow>
         find_kernel_specs cfg ext w = (Inr (remote_dirs specs), w'))
      \<and> (\<not> conda_store_only cfg \<longrightarrow>
           (\<exists>found. find_kernel_specs cfg ext w = (Inr found, w')
              \<and> map_of found
                  = map_of (native_find_kernel_specs ext (files w)) ++ map_of (remote_dirs specs))))
   \<and> (\<not> conda_store_only cfg
        \<and> list_environments ext (conda_store_url cfg) (conda_store_auth cfg)
             (conda_store_verify_ssl cfg) (clock w) ''COMPLETED'' ''CONDA_PACK'' [''ipykernel'']
           = Inr []
       \<longrightarrow> fst (find_kernel_specs cfg ext w) = Inr (native_find_kernel_specs ext (files w)))"
proof (intro conjI impI)
  assume cycle: "kernel_specs cfg ext w = (Inr specs, w')"
  then have d: "distinct (map fst (remote_dirs specs))"
    by (simp add: keys_remote_dirs kernel_specs_distinct)
  {
    assume "conda_store_only cfg"
    with cycle d show "find_kernel_specs cfg ext w = (Inr (remote_dirs specs), w')"
      using dict_update_fresh [of "[]" "remote_dirs specs"]
      by (simp add: find_kernel_specs_def)
  }
  {
    assume "\<not> conda_store_only cfg"
    with cycle d show "\<exists>found. find_kernel_specs cfg ext w = (Inr found, w')
        \<and> map_of found
            = map_of (native_find_kernel_specs ext (files w)) ++ map_of (remote_dirs specs)"
      by (simp add: find_kernel_specs_def map_of_dict_update)
  }
next
  assume "\<not> conda_store_only cfg
        \<and> list_environments ext (conda_store_url cfg) (conda_store_auth cfg)
             (conda_store_verify_ssl cfg) (clock w) ''COMPLETED'' ''CONDA_PACK'' [''ipykernel'']
           = Inr []"
  then show "fst (find_kernel_specs cfg ext w) = Inr (native_find_kernel_specs ext (files w))"
    by (simp add: find_kernel_specs_def kernel_specs_def run_sync_def kernel_specs_coro_def
          remote_dirs_def)
qed

lemma find_kernel_specs_merge_example:
  "(kernel_specs remote_only_config refusing_machine fresh_world
      = (Inr refused_specs, refused_world)
    \<and> conda_store_only remote_only_config
    \<and> find_kernel_specs remote_only_config refusing_machine fresh_world
      = (Inr [(''conda-store://teamA/analysis:42'', ''/tmp/conda-store/42''),
              (''conda-store://teamB/reports:42'', ''/tmp/conda-store/42'')], refused_world))
   \<and> (kernel_specs default_config shadowed_machine fresh_world
      = (Inr refused_specs, refused_world)
    \<and> \<not> conda_store_only default_config
    \<and> (\<exists>found. find_kernel_specs default_config shadowed_machine fresh_world
                  = (Inr found, refused_world)
          \<and> map_of found ''conda-store://teamA/analysis:42'' = Some ''/tmp/conda-store/42''
          \<and> map_of found ''python3'' = Some ''/usr/share/jupyter/kernels/python3''))
   \<and> (list_environments local_machine (conda_store_url default_config)
        (conda_store_auth default_config) (conda_store_verify_ssl default_config)
        (clock fresh_world) ''COMPLETED'' ''CONDA_PACK'' [''ipykernel''] = Inr []
    \<and> fst (find_kernel_specs default_config local_machine fresh_world)
      = Inr [(''python3'', ''/usr/share/jupyter/kernels/python3'')])"
proof -
  have a: "kernel_specs remote_only_config refusing_machine fresh_world
      = (Inr refused_specs, refused_world)"
    by (simp add: instance_defs cycle_defs)
  have b: "kernel_specs default_config shadowed_machine fresh_world
      = (Inr refused_specs, refused_world)"
    by (simp add: instance_defs cycle_defs)
  have dirs: "remote_dirs refused_specs
      = [(''conda-store://teamA/analysis:42'', ''/tmp/conda-store/42''),
         (''conda-store://teamB/reports:42'', ''/tmp/conda-store/42'')]"
    by (simp add: remote_dirs_def instance_defs cycle_defs)
  have ro: "conda_store_only remote_only_config" "\<not> conda_store_only default_config"
    by (simp_all add: instance_defs)
  have c: "list_environments local_machine (conda_store_url default_config)
        (conda_store_auth default_config) (conda_store_verify_ssl default_config)
        (clock fresh_world) ''COMPLETED'' ''CONDA_PACK'' [''ipykernel''] = Inr []"
    by (simp add: instance_defs)
  have nat: "native_find_kernel_specs shadowed_machine (files fresh_world)
      = [(''conda-store://teamA/analysis:42'', ''/opt/kernels/stale''),
         (''python3'', ''/usr/share/jupyter/kernels/python3'')]"
    "native_find_kernel_specs local_machine (files fresh_world)
      = [(''python3'', ''/usr/share/jupyter/kernels/python3'')]"
    by (simp_all add: instance_defs)
  note merge = find_kernel_specs_merge
  have A: "find_kernel_specs remote_only_config refusing_machine fresh_world
      = (Inr (remote_dirs refused_specs), refused_world)"
    using merge [of remote_only_config refusing_machine fresh_world refused_specs refused_world,
                 THEN conjunct1] a ro
    by simp
  have B: "\<exists>found. find_kernel_specs default_config shadowed_machine fresh_world
                  = (Inr found, refused_world)
          \<and> map_of found
              = map_of (native_find_kernel_specs shadowed_machine (files fresh_world))
                ++ map_of (remote_dirs refused_specs)"
    using merge [of default_config shadowed_machine fresh_world refused_specs refused_world,
                 THEN conjunct1] b ro
    by simp
  have C: "fst (find_kernel_specs default_config local_machine fresh_world)
      = Inr (native_find_kernel_specs local_machine (files fresh_world))"
    using merge [of default_config local_machine fresh_world, THEN conjunct2] c ro
    by simp
  from A B C a b c ro show ?thesis
    unfolding dirs nat by (auto simp: map_add_def)
qed

text \<open>
  C4 says that for every registry response \<^verbatim>\<open>find_kernel_specs\<close> returns the merged
  mapping. On \<open>installing_machine\<close> the registry answers with one eligible environment
  whose installation succeeds; the cycle ends with the \<^verbatim>\<open>AttributeError\<close> of
  \<^verbatim>\<open>os.join\<close>, and \<^verbatim>\<open>find_kernel_specs\<close> raises it instead of returning a mapping, in
  remote-only mode and outside it.
\<close>

theorem find_kernel_specs_raises_when_installed:
  "fst (find_kernel_specs dashed_remote_only_config installing_machine fresh_world)
     = Inl (AttributeError ''module os has no attribute join'')
   \<and> fst (find_kernel_specs dashed_config installing_machine fresh_world)
     = Inl (AttributeError ''module os has no attribute join'')"
  by (simp add: find_kernel_specs_def instance_defs cycle_defs)

section \<open>Get one\<close>

text \<open>
  C5, as stated: an identity found neither among the remote definitions nor natively gives
  the normal outcome ``absent''. With remote-only mode off the native lookup is consulted,
  and its \<^verbatim>\<open>NoSuchKernel\<close> for an unknown name reaches the caller: on \<open>local_machine\<close>
  the registry is empty, the native search does not list \<^verbatim>\<open>ghost\<close>, and the lookup of
  \<^verbatim>\<open>ghost\<close> raises.
\<close>

theorem get_kernel_spec_raises_for_missing:
  "fst (kernel_specs default_config local_machine fresh_world) = Inr []
   \<and> ''ghost'' \<notin> fst ` set (native_find_kernel_specs local_machine Map.empty)
   \<and> fst (get_kernel_spec default_config local_machine ''ghost'' fresh_world)
       = Inl (NoSuchKernel ''ghost'')
   \<and> fst (get_kernel_spec default_config local_machine ''ghost'' fresh_world) \<noteq> Inr None"
  by (simp add: get_kernel_spec_def dict_get_def instance_defs cycle_defs)

text \<open>
  C5, amended: \<^verbatim>\<open>get_kernel_spec\<close> runs one full cycle, whose failure it passes on, and
  looks the identity up in the remote definitions. A definition found there is returned.
  Otherwise, in remote-only mode the outcome is ``absent'' (\<^verbatim>\<open>None\<close>) and no error; with
  remote-only mode off the outcome is that of the native lookup: the native definition, or
  the error the native lookup raises (\<^verbatim>\<open>NoSuchKernel\<close> for an identity found nowhere).
\<close>

theorem get_kernel_spec_lookup:
  "(kernel_specs cfg ext w = (Inl err, w') \<longrightarrow> get_kernel_spec cfg ext nm w = (Inl err, w'))
   \<and> (kernel_specs cfg ext w = (Inr specs, w') \<longrightarrow>
        (map_of specs nm = Some spec \<longrightarrow> get_kernel_spec cfg ext nm w = (Inr (Some spec), w'))
        \<and> (map_of specs nm = None \<and> conda_store_only cfg \<longrightarrow>
             get_kernel_spec cfg ext nm w = (Inr None, w'))
        \<and> (map_of specs nm = None \<and> \<not> conda_store_only cfg
              \<and> native_get_kernel_spec ext (files w') nm = Inr spec \<longrightarrow>
             get_kernel_spec cfg ext nm w = (Inr (Some spec), w'))
        \<and> (map_of specs nm = None \<and> \<not> conda_store_only cfg
              \<and> native_get_kernel_spec ext (files w') nm = Inl err' \<longrightarrow>
             get_kernel_spec cfg ext nm w = (Inl err', w')))"
  by (simp add: get_kernel_spec_def dict_get_def)

theorem get_kernel_spec_lookup_witness:
  "get_kernel_spec remote_only_config refusing_machine ''conda-store://teamA/analysis:42''
       fresh_world
     = (Inr (Some (translate refusing_machine ''teamA/analysis:42'' env_analysis)), refused_world)
   \<and> get_kernel_spec remote_only_config refusing_machine ''python3'' fresh_world
     = (Inr None, refused_world)
   \<and> get_kernel_spec default_config refusing_machine ''python3'' fresh_world
     = (Inr (Some python3_spec), refused_world)
   \<and> get_kernel_spec default_config refusing_machine ''ghost'' fresh_world
     = (Inl (NoSuchKernel ''ghost''), refused_world)
   \<and> get_kernel_spec default_config (local_machine\<lparr>list_environments := unreachable_registry\<rparr>)
       ''python3'' fresh_world
     = (Inl (ConnectionFailure ''Connection refused''), fresh_world\<lparr>clock := 1\<rparr>)"
proof -
  have a: "kernel_specs remote_only_config refusing_machine fresh_world
      = (Inr refused_specs, refused_world)"
    by (simp add: instance_defs cycle_defs)
  have b: "kernel_specs default_config refusing_machine fresh_world
      = (Inr refused_specs, refused_world)"
    by (simp add: instance_defs cycle_defs)
  have c: "kernel_specs default_config (local_machine\<lparr>list_environments := unreachable_registry\<rparr>)
        fresh_world
      = (Inl (ConnectionFailure ''Connection refused''), fresh_world\<lparr>clock := 1\<rparr>)"
    by (simp add: instance_defs cycle_defs)
  have ro: "conda_store_only remote_only_config" "\<not> conda_store_only default_config"
    by (simp_all add: instance_defs)
  have hit: "map_of refused_specs ''conda-store://teamA/analysis:42''
      = Some (translate refusing_machine ''teamA/analysis:42'' env_analysis)"
    by (simp add: refused_specs_def)
  have miss: "map_of refused_specs ''python3'' = None" "map_of refused_specs ''ghost'' = None"
    by (simp_all add: refused_specs_def)
  have native: "native_get_kernel_spec refusing_machine (files refused_world) ''python3''
      = Inr python3_spec"
    "native_get_kernel_spec refusing_machine (files refused_world) ''ghost''
      = Inl (NoSuchKernel ''ghost'')"
    by (simp_all add: refusing_machine_def local_machine_def)
  note lookup = get_kernel_spec_lookup
  have "get_kernel_spec remote_only_config refusing_machine ''conda-store://teamA/analysis:42''
       fresh_world
     = (Inr (Some (translate refusing_machine ''teamA/analysis:42'' env_analysis)), refused_world)"
    using lookup [where cfg = remote_only_config and ext = refusing_machine and w = fresh_world
        and specs = refused_specs and w' = refused_world
        and nm = "''conda-store://teamA/analysis:42''"
        and spec = "translate refusing_machine ''teamA/analysis:42'' env_analysis",
        THEN conjunct2] a hit
    by simp
  moreover have "get_kernel_spec remote_only_config refusing_machine ''python3'' fresh_world
     = (Inr None, refused_world)"
    using lookup [where cfg = remote_only_config and ext = refusing_machine and w = fresh_world
        and specs = refused_specs and w' = refused_world and nm = "''python3''",
        THEN conjunct2] a miss ro
    by simp
  moreover have "get_kernel_spec default_config refusing_machine ''python3'' fresh_world
     = (Inr (Some python3_spec), refused_world)"
    using lookup [where cfg = default_config and ext = refusing_machine and w = fresh_world
        and specs = refused_specs and w' = refused_world and nm = "''python3''"
        and spec = python3_spec, THEN conjunct2] b miss ro native
    by simp
  moreover have "get_kernel_spec default_config refusing_machine ''ghost'' fresh_world
     = (Inl (NoSuchKernel ''ghost''), refused_world)"
    using lookup [where cfg = default_config and ext = refusing_machine and w = fresh_world
        and specs = refused_specs and w' = refused_world and nm = "''ghost''"
        and err' = "NoSuchKernel ''ghost''", THEN conjunct2] b miss ro native
    by simp
  moreover have "get_kernel_spec default_config
       (local_machine\<lparr>list_environments := unreachable_registry\<rparr>) ''python3'' fresh_world
     = (Inl (ConnectionFailure ''Connection refused''), fresh_world\<lparr>clock := 1\<rparr>)"
    using lookup [where cfg = default_config
        and ext = "local_machine\<lparr>list_environments := unreachable_registry\<rparr>"
        and w = fresh_world and w' = "fresh_world\<lparr>clock := 1\<rparr>" and nm = "''python3''"
        and err = "ConnectionFailure ''Connection refused''", THEN conjunct1] c
    by simp
  ultimately show ?thesis by simp
qed

section \<open>Get all with metadata\<close>

text \<open>
  The handler of \<^verbatim>\<open>get_all_specs\<close>: when the lookup of an identity listed by
  \<^verbatim>\<open>find_kernel_specs\<close> fails with \<^verbatim>\<open>NoSuchKernel\<close>, the aggregation goes on with the
  identities after it, from the mapping built so far; the identity is not in the mapping
  returned, and a warning naming it is in the log.
\<close>

lemma get_all_specs_skips_missing:
  assumes found: "find_kernel_specs cfg ext w0 = (Inr (pre @ (nm, dir) # post), w)"
    and keys: "distinct (map fst (pre @ (nm, dir) # post))"
    and before: "get_all_loop cfg ext pre [] w = (Inr r1, w1)"
    and missing: "get_kernel_spec cfg ext nm w1 = (Inl (NoSuchKernel msg), w2)"
  shows "get_all_specs cfg ext w0
           = get_all_loop cfg ext post r1
               (w2\<lparr>log := log w2 @ [load_warning nm (NoSuchKernel msg)]\<rparr>)
      \<and> (\<forall>res w'. get_all_specs cfg ext w0 = (Inr res, w')
            \<longrightarrow> nm \<notin> fst ` set res \<and> load_warning nm (NoSuchKernel msg) \<in> set (log w'))"
proof -
  let ?w3 = "w2\<lparr>log := log w2 @ [load_warning nm (NoSuchKernel msg)]\<rparr>"
  have "get_all_specs cfg ext w0 = get_all_loop cfg ext (pre @ (nm, dir) # post) [] w"
    using found by (simp add: get_all_specs_def)
  also have "\<dots> = get_all_loop cfg ext ((nm, dir) # post) r1 w1"
    using before by (rule get_all_loop_append)
  also have "\<dots> = get_all_loop cfg ext post r1 ?w3"
    using missing by simp
  finally have step: "get_all_specs cfg ext w0 = get_all_loop cfg ext post r1 ?w3" .
  have "nm \<notin> fst ` set res \<and> load_warning nm (NoSuchKernel msg) \<in> set (log w')"
    if "get_all_specs cfg ext w0 = (Inr res, w')" for res w'
  proof -
    from that step have rest: "get_all_loop cfg ext post r1 ?w3 = (Inr res, w')" by simp
    from get_all_loop_keys [OF before] have "fst ` set r1 \<subseteq> fst ` set pre" by simp
    with get_all_loop_keys [OF rest] have "fst ` set res \<subseteq> fst ` set pre \<union> fst ` set post"
      by auto
    moreover from keys have "nm \<notin> fst ` set pre \<union> fst ` set post" by auto
    ultimately have "nm \<notin> fst ` set res" by auto
    moreover from get_all_loop_log [OF rest]
    have "load_warning nm (NoSuchKernel msg) \<in> set (log w')" by auto
    ultimately show ?thesis ..
  qed
  with step show ?thesis by blast
qed

lemma get_all_specs_skips_missing_example:
  "find_kernel_specs default_config broken_kernel_machine fresh_world
     = (Inr ([] @ (''broken'', ''/usr/share/jupyter/kernels/broken'')
               # [(''python3'', ''/usr/share/jupyter/kernels/python3'')]),
        fresh_world\<lparr>clock := 1\<rparr>)
   \<and> get_kernel_spec default_config broken_kernel_machine ''broken'' (fresh_world\<lparr>clock := 1\<rparr>)
     = (Inl (NoSuchKernel ''broken''), fresh_world\<lparr>clock := 2\<rparr>)
   \<and> get_all_specs default_config broken_kernel_machine fresh_world
     = (Inr [(''python3'', ''/usr/share/jupyter/kernels/python3'', spec_dict python3_spec)],
        \<lparr>clock = 3, files = Map.empty,
         log = [load_warning ''broken'' (NoSuchKernel ''broken'')]\<rparr>)"
proof -
  have f: "find_kernel_specs default_config broken_kernel_machine fresh_world
     = (Inr ([] @ (''broken'', ''/usr/share/jupyter/kernels/broken'')
               # [(''python3'', ''/usr/share/jupyter/kernels/python3'')]),
        fresh_world\<lparr>clock := 1\<rparr>)"
    by (simp add: find_kernel_specs_def remote_dirs_def instance_defs cycle_defs)
  have k: "distinct (map fst ([] @ (''broken'', ''/usr/share/jupyter/kernels/broken'')
               # [(''python3'', ''/usr/share/jupyter/kernels/python3'')]))"
    by simp
  have p: "get_all_loop default_config broken_kernel_machine [] [] (fresh_world\<lparr>clock := 1\<rparr>)
     = (Inr [], fresh_world\<lparr>clock := 1\<rparr>)"
    by simp
  have g: "get_kernel_spec default_config broken_kernel_machine ''broken''
       (fresh_world\<lparr>clock := 1\<rparr>)
     = (Inl (NoSuchKernel ''broken''), fresh_world\<lparr>clock := 2\<rparr>)"
    by (simp add: get_kernel_spec_def dict_get_def instance_defs cycle_defs)
  have r: "get_all_loop default_config broken_kernel_machine
       [(''python3'', ''/usr/share/jupyter/kernels/python3'')] []
       (fresh_world\<lparr>clock := 2, log := log (fresh_world\<lparr>clock := 2\<rparr>)
          @ [load_warning ''broken'' (NoSuchKernel ''broken'')]\<rparr>)
     = (Inr [(''python3'', ''/usr/share/jupyter/kernels/python3'', spec_dict python3_spec)],
        \<lparr>clock = 3, files = Map.empty,
         log = [load_warning ''broken'' (NoSuchKernel ''broken'')]\<rparr>)"
    by (simp add: get_kernel_spec_def dict_get_def instance_defs cycle_defs)
  from get_all_specs_skips_missing [OF f k p g, THEN conjunct1] f g r
  show ?thesis by simp
qed

text \<open>
  C6 says that an identity that is not found is logged and left out, and that the
  aggregation never aborts because of it. In remote-only mode the lookup of an identity
  that is not found returns \<^verbatim>\<open>None\<close> instead of raising \<^verbatim>\<open>NoSuchKernel\<close>. On
  \<open>vanishing_machine\<close> the environment listed by \<^verbatim>\<open>find_kernel_specs\<close> has left the
  registry when it is looked up: the lookup returns \<^verbatim>\<open>None\<close>, \<^verbatim>\<open>spec.to_dict()\<close> raises
  \<^verbatim>\<open>AttributeError\<close>, which the handler does not catch, and the aggregation aborts.
\<close>

theorem get_all_specs_raises_for_absent:
  "find_kernel_specs dashed_remote_only_config vanishing_machine fresh_world
     = (Inr [(''conda-store://teamA/analysis:42'', ''/tmp/conda-store/42'')],
        \<lparr>clock = 1, files = Map.empty,
         log = [install_warning (OSError ''No such file or directory'')]\<rparr>)
   \<and> get_kernel_spec dashed_remote_only_config vanishing_machine
       ''conda-store://teamA/analysis:42''
       \<lparr>clock = 1, files = Map.empty,
        log = [install_warning (OSError ''No such file or directory'')]\<rparr>
     = (Inr None,
        \<lparr>clock = 2, files = Map.empty,
         log = [install_warning (OSError ''No such file or directory'')]\<rparr>)
   \<and> fst (get_all_specs dashed_remote_only_config vanishing_machine fresh_world)
     = Inl (AttributeError ''NoneType object has no attribute to_dict'')"
  by (simp add: get_all_specs_def find_kernel_specs_def get_kernel_spec_def dict_get_def
        remote_dirs_def instance_defs cycle_defs)

end
